theory Spec2Isabelle
  imports Main "HOL-Library.Word"
begin

unbundle bit_operations_syntax

section \<open>Machine types, result codes and the driver's global state\<close>

type_synonym uint8 = "8 word"
type_synonym uint16 = "16 word"
type_synonym uint32 = "32 word"
type_synonym int16 = "16 word"

text \<open>
  Result codes returned to the MacOS side, as 16-bit two's complement values (read them
  with \<open>sint\<close>). \<open>noErr\<close> is the MacOS success code; the other values are those of
  the error enum in \<^verbatim>\<open>ether_ios.cpp\<close>.
\<close>

definition noErr :: int16 where
  "noErr = 0"

definition eMultiErr :: int16 where
  "eMultiErr = - 91"

definition lapProtErr :: int16 where
  "lapProtErr = - 94"

definition excessCollsns :: int16 where
  "excessCollsns = - 95"

text \<open>The anonymous enum of Ethernet device types; \<open>net_if_type\<close> starts at \<open>-1\<close>.\<close>

definition NET_IF_SHEEPNET :: int where
  "NET_IF_SHEEPNET = 0"

definition NET_IF_ETHERTAP :: int where
  "NET_IF_ETHERTAP = 1"

definition NET_IF_TUNTAP :: int where
  "NET_IF_TUNTAP = 2"

definition NET_IF_SLIRP :: int where
  "NET_IF_SLIRP = 3"

text \<open>
  The file-level variables of \<^verbatim>\<open>ether_ios.cpp\<close>. \<open>int_ack\<close> is the counter of the
  dispatch semaphore, \<open>net_protocols\<close> the \<^verbatim>\<open>map<uint16, uint32>\<close> from protocol
  type to MacOS handler address. \<open>ether_addr\<close> is declared by the driver's header and
  written by \<^verbatim>\<open>ether_init\<close>.
\<close>

record ether_globals =
  fd :: int
  thread_active :: bool
  int_ack :: nat
  udp_tunnel :: bool
  net_if_type :: int
  slirp_thread_active :: bool
  slirp_output_fd :: int
  slirp_input_fds :: "int \<times> int"
  ether_addr :: "uint8 list"
  net_protocols :: "uint16 \<rightharpoonup> uint32"

text \<open>The values the static initialisers give before \<^verbatim>\<open>ether_init\<close> runs.\<close>

definition initial_globals :: ether_globals where
  "initial_globals =
     \<lparr> fd = - 1, thread_active = False, int_ack = 0, udp_tunnel = False,
       net_if_type = - 1, slirp_thread_active = False, slirp_output_fd = - 1,
       slirp_input_fds = (- 1, - 1), ether_addr = replicate 6 0,
       net_protocols = Map.empty \<rparr>"


section \<open>Protocol handlers: attach, detach, reset\<close>

text \<open>
  \<^verbatim>\<open>ether_attach_ph\<close>: \<^verbatim>\<open>find(type) != end()\<close> gives \<open>lapProtErr\<close>, otherwise the
  handler is stored under \<open>type\<close>. The handler value itself is not inspected.
\<close>

definition ether_attach_ph ::
  "uint16 \<Rightarrow> uint32 \<Rightarrow> 'a ether_globals_scheme \<Rightarrow> int16 \<times> 'a ether_globals_scheme" where
  "ether_attach_ph type handler s =
     (if net_protocols s type \<noteq> None then (lapProtErr, s)
      else (noErr, s\<lparr>net_protocols := (net_protocols s)(type \<mapsto> handler)\<rparr>))"

text \<open>
  \<^verbatim>\<open>ether_detach_ph\<close>: \<^verbatim>\<open>erase(type)\<close> returns the number of removed entries; zero
  gives \<open>lapProtErr\<close>.
\<close>

definition ether_detach_ph ::
  "uint16 \<Rightarrow> 'a ether_globals_scheme \<Rightarrow> int16 \<times> 'a ether_globals_scheme" where
  "ether_detach_ph type s =
     (if net_protocols s type = None then (lapProtErr, s)
      else (noErr, s\<lparr>net_protocols := (net_protocols s)(type := None)\<rparr>))"

text \<open>\<^verbatim>\<open>ether_reset\<close>: \<^verbatim>\<open>net_protocols.clear()\<close>.\<close>

definition ether_reset :: "'a ether_globals_scheme \<Rightarrow> 'a ether_globals_scheme" where
  "ether_reset s = s\<lparr>net_protocols := Map.empty\<rparr>"


section \<open>Dispatching a received packet\<close>

text \<open>
  A received packet is the byte string that \<^verbatim>\<open>read\<close> stored in the packet buffer.
\<close>

type_synonym packet = "uint8 list"

text \<open>
  Modelled from the spec: \<^verbatim>\<open>ReadMacInt16\<close>, the emulator's accessor for guest memory,
  which is not in this file. It extracts the 16-bit field at the given offset of the
  packet, most significant byte first (guest memory is big-endian). The driver uses it
  only at offset 12 of a buffer holding at least 14 bytes.
\<close>

definition ReadMacInt16 :: "packet \<Rightarrow> nat \<Rightarrow> uint16" where
  "ReadMacInt16 mem off = push_bit 8 (ucast (mem ! off)) OR ucast (mem ! (off + 1))"

text \<open>
  The register file handed to \<^verbatim>\<open>Execute68k\<close>, restricted to the registers the driver
  sets, and the addresses of guest memory the driver works with: the packet buffer
  (\<^verbatim>\<open>ether_packet.addr()\<close>), the driver's data area and two offsets into it.
\<close>

record M68kRegisters =
  d0 :: uint32
  d1 :: uint32
  a0 :: uint32
  a3 :: uint32
  a4 :: uint32

record mac_layout =
  ether_data :: uint32
  ed_RHA :: uint32
  ed_ReadPacket :: uint32

text \<open>
  What the interrupt routine does to the guest: copying a 14-byte header to the RHA
  and running a protocol handler, or (UDP tunnel) passing a datagram to
  \<^verbatim>\<open>ether_udp_read\<close>.
\<close>

datatype guest_action =
    Mac2Mac_memcpy uint32 packet
  | Execute68k uint32 M68kRegisters
  | ether_udp_read packet

definition search_type :: "uint16 \<Rightarrow> uint16" where
  "search_type type = (if type \<le> 1500 then 0 else type)"

definition ether_dispatch_packet ::
  "mac_layout \<Rightarrow> (uint16 \<rightharpoonup> uint32) \<Rightarrow> packet \<Rightarrow> uint32 \<Rightarrow> uint32 \<Rightarrow> guest_action list" where
  "ether_dispatch_packet L protocols mem p len =
     (let type = ReadMacInt16 mem 12 in
      case protocols (search_type type) of
        None \<Rightarrow> []
      | Some handler \<Rightarrow>
          if handler = 0 then []
          else [ Mac2Mac_memcpy (ether_data L + ed_RHA L) (take 14 mem),
                 Execute68k handler
                   \<lparr> d0 = ucast type, d1 = len - 14, a0 = p + 14,
                     a3 = ether_data L + ed_RHA L + 14,
                     a4 = ether_data L + ed_ReadPacket L \<rparr> ])"

text \<open>The handlers run by a list of actions, in order.\<close>

fun handlers_run :: "guest_action list \<Rightarrow> uint32 list" where
  "handlers_run [] = []"
| "handlers_run (Execute68k h r # as) = h # handlers_run as"
| "handlers_run (a # as) = handlers_run as"


section \<open>The interrupt routine\<close>

text \<open>
  The host side of \<open>fd\<close> is the list of byte strings that the successive
  \<^verbatim>\<open>read\<close> (or \<^verbatim>\<open>recvfrom\<close>) calls on the non-blocking descriptor will return;
  with nothing pending the call returns \<open>-1\<close>. Each call asks for at most 1514 bytes.
  An element of the list is the result of one read, which is not always one frame: the
  raw device and the UDP socket return one frame per call, while in slirp mode \<open>fd\<close>
  is a pipe into which \<^verbatim>\<open>slirp_output\<close> writes the frames with nothing between them,
  so that one read may return several frames joined, or a part of one. The driver
  treats whatever a read returns as one packet.

  \<^verbatim>\<open>ether_do_interrupt\<close> loops until a call returns fewer than 14 bytes. The result
  is the list of actions on the guest and what is still pending on \<open>fd\<close>. The code
  run by \<^verbatim>\<open>Execute68k\<close> belongs to the guest: the model records the call and leaves
  the driver's variables as they are.
\<close>

fun ether_do_interrupt ::
  "mac_layout \<Rightarrow> uint32 \<Rightarrow> 'a ether_globals_scheme \<Rightarrow> packet list \<Rightarrow> guest_action list \<times> packet list" where
  "ether_do_interrupt L packet s [] = ([], [])"
| "ether_do_interrupt L packet s (c # pending) =
     (let buf = take 1514 c; len = int (length buf) in
      if len < 14 then ([], pending)
      else
        let (acts, rest) = ether_do_interrupt L packet s pending in
        ((if udp_tunnel s then [ether_udp_read buf]
          else ether_dispatch_packet L (net_protocols s) buf packet (word_of_int len)) @ acts,
         rest))"



section \<open>The reception thread and the interrupt acknowledge\<close>

text \<open>
  \<^verbatim>\<open>receive_func\<close> is a loop: it blocks in \<^verbatim>\<open>poll\<close> on \<open>fd\<close>, sets the interrupt
  flag, triggers the interrupt and blocks in \<^verbatim>\<open>dispatch_semaphore_wait\<close> on
  \<open>int_ack\<close>. Other threads run between any two of these calls, so the thread is at
  one of four places: about to return from \<^verbatim>\<open>poll\<close>, between
  \<^verbatim>\<open>SetInterruptFlag\<close> and \<^verbatim>\<open>TriggerInterrupt\<close>, about to return from the semaphore
  wait, or gone (the \<^verbatim>\<open>break\<close> on \<open>res <= 0\<close>).

  The state of the whole device adds to the driver's variables the packets pending on
  \<open>fd\<close>, the emulator's Ethernet interrupt flag (set by
  \<^verbatim>\<open>SetInterruptFlag(INTFLAG_ETHER)\<close>), the place of the reception thread, and whether
  the emulator is inside \<^verbatim>\<open>EtherInterrupt\<close>, between \<^verbatim>\<open>ether_do_interrupt\<close> and the
  signal on the semaphore.
\<close>

datatype recv_pc = AtPoll | AtTrigger | AtWait | Returned

record machine = ether_globals +
  pending :: "packet list"
  InterruptFlags_ETHER :: bool
  recv_pc :: recv_pc
  in_interrupt :: bool

text \<open>What an observer of the device sees, in order.\<close>

datatype observation =
    SetInterruptFlag
  | TriggerInterrupt
  | Guest guest_action
  | SemaphoreSignal

definition ether_driver_opened :: bool where
  "ether_driver_opened = True"

text \<open>
  The loop body from the return of \<^verbatim>\<open>poll\<close> to \<^verbatim>\<open>SetInterruptFlag\<close>, and the
  call of \<^verbatim>\<open>TriggerInterrupt\<close> after it. The thread does not read from \<open>fd\<close>.
  With \<open>ether_driver_opened\<close> false the source sleeps 20 ms and polls again.
\<close>

definition receive_func_poll :: "int \<Rightarrow> machine \<Rightarrow> machine \<times> observation list" where
  "receive_func_poll res m =
     (if res \<le> 0 then (m\<lparr>recv_pc := Returned\<rparr>, [])
      else if ether_driver_opened
        then (m\<lparr>InterruptFlags_ETHER := True, recv_pc := AtTrigger\<rparr>, [SetInterruptFlag])
        else (m, []))"

definition receive_func_trigger :: "machine \<Rightarrow> machine \<times> observation list" where
  "receive_func_trigger m = (m\<lparr>recv_pc := AtWait\<rparr>, [TriggerInterrupt])"

text \<open>
  \<^verbatim>\<open>dispatch_semaphore_wait(int_ack, DISPATCH_TIME_FOREVER)\<close> returns only after
  taking one unit from the counter; \<open>None\<close> is the blocked call.
  \<^verbatim>\<open>dispatch_semaphore_signal\<close> adds one unit.
\<close>

definition dispatch_semaphore_wait :: "machine \<Rightarrow> machine option" where
  "dispatch_semaphore_wait m =
     (if 0 < int_ack m then Some (m\<lparr>int_ack := int_ack m - 1\<rparr>) else None)"

definition dispatch_semaphore_signal :: "machine \<Rightarrow> machine \<times> observation list" where
  "dispatch_semaphore_signal m = (m\<lparr>int_ack := int_ack m + 1\<rparr>, [SemaphoreSignal])"

text \<open>
  \<^verbatim>\<open>EtherInterrupt\<close>: run \<^verbatim>\<open>ether_do_interrupt\<close> on what is pending, then signal
  \<open>int_ack\<close>. This is the only signal on \<open>int_ack\<close> in the build that defines
  \<^verbatim>\<open>ether_dispatch_packet\<close>.
\<close>

definition run_ether_do_interrupt ::
  "mac_layout \<Rightarrow> uint32 \<Rightarrow> machine \<Rightarrow> machine \<times> observation list" where
  "run_ether_do_interrupt L packet m =
     (let (acts, rest) = ether_do_interrupt L packet m (pending m) in
      (m\<lparr>pending := rest\<rparr>, map Guest acts))"

definition EtherInterrupt ::
  "mac_layout \<Rightarrow> uint32 \<Rightarrow> machine \<Rightarrow> machine \<times> observation list" where
  "EtherInterrupt L packet m =
     (let (m1, o1) = run_ether_do_interrupt L packet m;
          (m2, o2) = dispatch_semaphore_signal m1
      in (m2, o1 @ o2))"

text \<open>
  The events that move the device: \<^verbatim>\<open>poll\<close> returns in the reception thread with
  result \<open>res\<close>; the thread calls \<^verbatim>\<open>TriggerInterrupt\<close>; its semaphore wait returns;
  the emulator enters \<^verbatim>\<open>EtherInterrupt\<close> and runs \<^verbatim>\<open>ether_do_interrupt\<close>;
  \<^verbatim>\<open>EtherInterrupt\<close> signals the semaphore and returns; the host makes the result
  of one more read pending on \<open>fd\<close> (on the raw device, one packet). An event that
  cannot happen in a state (the thread is elsewhere, the semaphore is at zero, no
  interrupt is raised) gives \<open>None\<close>.
\<close>

datatype event =
    PollReturns int
  | Triggers
  | SemaphoreAcquired
  | InterruptEnters
  | InterruptReturns
  | HostDelivers packet

text \<open>
  Modelled from the spec: the emulator's interrupt dispatch, which is not in this file.
  The interrupt bridge has the two states Idle and Pending; the guest's interrupt
  service runs for a pending interrupt only, takes the interrupt (the flag goes down)
  and ends in the acknowledgment. It may take the interrupt as soon as the flag is set,
  before the reception thread has called \<^verbatim>\<open>TriggerInterrupt\<close> (another interrupt
  source may have triggered the emulator).
\<close>

definition interrupt_enters ::
  "mac_layout \<Rightarrow> uint32 \<Rightarrow> machine \<Rightarrow> (machine \<times> observation list) option" where
  "interrupt_enters L packet m =
     (if InterruptFlags_ETHER m
      then Some (run_ether_do_interrupt L packet
                   (m\<lparr>InterruptFlags_ETHER := False, in_interrupt := True\<rparr>))
      else None)"

definition interrupt_returns :: "machine \<Rightarrow> (machine \<times> observation list) option" where
  "interrupt_returns m =
     (if in_interrupt m
      then Some (dispatch_semaphore_signal (m\<lparr>in_interrupt := False\<rparr>))
      else None)"

fun step ::
  "mac_layout \<Rightarrow> uint32 \<Rightarrow> event \<Rightarrow> machine \<Rightarrow> (machine \<times> observation list) option" where
  "step L packet (PollReturns res) m =
     (if recv_pc m = AtPoll then Some (receive_func_poll res m) else None)"
| "step L packet Triggers m =
     (if recv_pc m = AtTrigger then Some (receive_func_trigger m) else None)"
| "step L packet SemaphoreAcquired m =
     (if recv_pc m = AtWait
      then (case dispatch_semaphore_wait m of
              None \<Rightarrow> None
            | Some m' \<Rightarrow> Some (m'\<lparr>recv_pc := AtPoll\<rparr>, []))
      else None)"
| "step L packet InterruptEnters m = interrupt_enters L packet m"
| "step L packet InterruptReturns m = interrupt_returns m"
| "step L packet (HostDelivers c) m = Some (m\<lparr>pending := pending m @ [c]\<rparr>, [])"

fun run ::
  "mac_layout \<Rightarrow> uint32 \<Rightarrow> event list \<Rightarrow> machine \<Rightarrow> (machine \<times> observation list) option" where
  "run L packet [] m = Some (m, [])"
| "run L packet (e # es) m =
     (case step L packet e m of
        None \<Rightarrow> None
      | Some (m1, o1) \<Rightarrow>
          (case run L packet es m1 of
             None \<Rightarrow> None
           | Some (m2, o2) \<Rightarrow> Some (m2, o1 @ o2)))"

fun trace_of :: "(machine \<times> observation list) option \<Rightarrow> observation list" where
  "trace_of None = []"
| "trace_of (Some (m, tr)) = tr"

text \<open>Whether an event can happen after a run, and the interrupt flag after it.\<close>

fun can_step ::
  "mac_layout \<Rightarrow> uint32 \<Rightarrow> event \<Rightarrow> (machine \<times> observation list) option \<Rightarrow> bool" where
  "can_step L packet e None = False"
| "can_step L packet e (Some (m, tr)) = (step L packet e m \<noteq> None)"

fun flag_after :: "(machine \<times> observation list) option \<Rightarrow> bool" where
  "flag_after None = False"
| "flag_after (Some (m, tr)) = InterruptFlags_ETHER m"

fun guest_actions :: "observation list \<Rightarrow> guest_action list" where
  "guest_actions [] = []"
| "guest_actions (Guest a # tr) = a # guest_actions tr"
| "guest_actions (x # tr) = guest_actions tr"

text \<open>
  \<^verbatim>\<open>start_thread\<close>, with the outcomes of \<^verbatim>\<open>dispatch_semaphore_create(0)\<close> and of
  the two \<^verbatim>\<open>pthread_create\<close> calls as arguments. The reception thread starts at its
  first \<^verbatim>\<open>poll\<close>.
\<close>

definition start_thread :: "bool \<Rightarrow> bool \<Rightarrow> bool \<Rightarrow> machine \<Rightarrow> bool \<times> machine" where
  "start_thread sem_created thread_created slirp_thread_created m =
     (if \<not> sem_created then (False, m)
      else
        let m1 = m\<lparr>int_ack := 0, thread_active := thread_created\<rparr> in
        if \<not> thread_created then (False, m1)
        else
          let m2 = m1\<lparr>recv_pc := AtPoll\<rparr> in
          if net_if_type m2 = NET_IF_SLIRP
          then (let m3 = m2\<lparr>slirp_thread_active := slirp_thread_created\<rparr> in
                if \<not> slirp_thread_created then (False, m3) else (True, m3))
          else (True, m2))"

text \<open>
  The state \<^verbatim>\<open>start_thread\<close> leaves behind when it succeeds, in an emulator that
  has no Ethernet interrupt raised or in service: the semaphore at 0 and the thread at
  its first \<^verbatim>\<open>poll\<close>.
\<close>

definition started :: "machine \<Rightarrow> bool" where
  "started m =
     (recv_pc m = AtPoll \<and> int_ack m = 0 \<and> \<not> InterruptFlags_ETHER m \<and> \<not> in_interrupt m)"

text \<open>
  Two ordering properties of a trace. An interrupt is raised when the flag is set and
  acknowledged by the signal on the semaphore. \<open>raise_after_ack\<close> scans the trace
  with a flag that says whether an interrupt has been raised and not yet acknowledged:
  no \<open>SetInterruptFlag\<close> is met while the flag is up. \<open>triggers_acked\<close> counts the
  triggers and the acknowledgments met so far: at every \<open>TriggerInterrupt\<close> each
  earlier trigger has an acknowledgment of its own behind it.
\<close>

fun raise_after_ack :: "bool \<Rightarrow> observation list \<Rightarrow> bool" where
  "raise_after_ack outstanding [] = True"
| "raise_after_ack outstanding (SetInterruptFlag # tr) =
     (\<not> outstanding \<and> raise_after_ack True tr)"
| "raise_after_ack outstanding (SemaphoreSignal # tr) = raise_after_ack False tr"
| "raise_after_ack outstanding (x # tr) = raise_after_ack outstanding tr"

fun triggers_acked :: "nat \<Rightarrow> nat \<Rightarrow> observation list \<Rightarrow> bool" where
  "triggers_acked t a [] = True"
| "triggers_acked t a (TriggerInterrupt # tr) = (t \<le> a \<and> triggers_acked (Suc t) a tr)"
| "triggers_acked t a (SemaphoreSignal # tr) = triggers_acked t (Suc a) tr"
| "triggers_acked t a (x # tr) = triggers_acked t a tr"

text \<open>The invariant that ties the semaphore to the thread's place and the emulator.\<close>

definition bridge_inv :: "machine \<Rightarrow> bool" where
  "bridge_inv m =
     (if recv_pc m = AtTrigger \<or> recv_pc m = AtWait
      then (if InterruptFlags_ETHER m then int_ack m = 0 \<and> \<not> in_interrupt m
            else if in_interrupt m then int_ack m = 0
            else int_ack m = 1)
      else int_ack m = 0 \<and> \<not> InterruptFlags_ETHER m \<and> \<not> in_interrupt m)"

text \<open>
  The count of triggers so far, of acknowledgments so far and the state agree: every
  acknowledgment is in the semaphore or was taken by a wait that a trigger preceded.
\<close>

definition counts_agree :: "nat \<Rightarrow> nat \<Rightarrow> machine \<Rightarrow> bool" where
  "counts_agree t a m = (t + int_ack m = a + (if recv_pc m = AtWait then 1 else 0))"

text \<open>
  The handler that \<^verbatim>\<open>ether_dispatch_packet\<close> runs for the result of a read, if any,
  and whether there is one.
\<close>

definition handler_of :: "(uint16 \<rightharpoonup> uint32) \<Rightarrow> packet \<Rightarrow> uint32 list" where
  "handler_of protocols c =
     (case protocols (search_type (ReadMacInt16 c 12)) of
        None \<Rightarrow> []
      | Some h \<Rightarrow> if h = 0 then [] else [h])"

definition deliverable :: "(uint16 \<rightharpoonup> uint32) \<Rightarrow> packet \<Rightarrow> bool" where
  "deliverable protocols c =
     (case protocols (search_type (ReadMacInt16 c 12)) of None \<Rightarrow> False | Some h \<Rightarrow> h \<noteq> 0)"


section \<open>Transmitting a packet\<close>

text \<open>
  \<^verbatim>\<open>write(2)\<close> as the driver sees it: the environment decides the result of a call
  from the descriptor and the bytes. \<^verbatim>\<open>ether_do_write\<close> gets the linear buffer that
  \<^verbatim>\<open>ether_arg_to_buffer\<close> filled and its length \<open>len\<close>; it returns the result code
  and the writes it issued. In slirp mode the length goes first, as the four bytes of
  the host's \<^verbatim>\<open>int\<close>, and neither result of \<^verbatim>\<open>write\<close> is looked at.
\<close>

type_synonym sys_write = "int \<Rightarrow> packet \<Rightarrow> int"

definition int_bytes :: "nat \<Rightarrow> packet" where
  "int_bytes len =
     (let w = (word_of_nat len :: uint32) in
      [ucast w, ucast (drop_bit 8 w), ucast (drop_bit 16 w), ucast (drop_bit 24 w)])"

definition ether_do_write ::
  "sys_write \<Rightarrow> 'a ether_globals_scheme \<Rightarrow> packet \<Rightarrow> int16 \<times> (int \<times> packet) list" where
  "ether_do_write write s packet =
     (let len = length packet in
      if net_if_type s = NET_IF_SLIRP then
        (let slirp_input_fd = snd (slirp_input_fds s) in
         (noErr, [(slirp_input_fd, int_bytes len), (slirp_input_fd, packet)]))
      else if write (fd s) packet < 0 then (excessCollsns, [(fd s, packet)])
      else (noErr, [(fd s, packet)]))"


section \<open>Port redirection rules for slirp\<close>

text \<open>
  C strings are modelled as \<open>string\<close>s without the terminating NUL.

  \<^verbatim>\<open>get_str_sep\<close> copies the text before the first \<open>sep\<close> into \<open>buf\<close>, cut to
  \<open>buf_size - 1\<close> characters, and advances \<open>p\<close> past the separator; without a
  separator it returns \<open>-1\<close>, here \<open>None\<close>.
\<close>

definition get_str_sep :: "string \<Rightarrow> nat \<Rightarrow> string \<Rightarrow> char \<Rightarrow> (string \<times> string) option" where
  "get_str_sep buf buf_size p sep =
     (if sep \<notin> set p then None
      else
        let len = length (takeWhile (\<lambda>c. c \<noteq> sep) p);
            p1 = drop (len + 1) p
        in Some (if 0 < buf_size then take (min len (buf_size - 1)) p else buf, p1))"

text \<open>
  \<^verbatim>\<open>strtol(s, &end, 0)\<close> of the C library, in the C locale and with a 64-bit
  \<^verbatim>\<open>long\<close>: white space, an optional sign, then hexadecimal after \<open>0x\<close> followed by
  a hexadecimal digit, octal after \<open>0\<close>, decimal otherwise; the value is clamped to
  the range of \<^verbatim>\<open>long\<close>; without any digit the value is 0 and \<open>end\<close> is the
  whole input. The result is the value and the unread rest.
\<close>

definition isspace :: "char \<Rightarrow> bool" where
  "isspace c = (c = CHR '' '' \<or> (9 \<le> (of_char c :: int) \<and> (of_char c :: int) \<le> 13))"

definition digit_value :: "char \<Rightarrow> int option" where
  "digit_value c =
     (let n = (of_char c :: int) in
      if 48 \<le> n \<and> n \<le> 57 then Some (n - 48)
      else if 97 \<le> n \<and> n \<le> 122 then Some (n - 87)
      else if 65 \<le> n \<and> n \<le> 90 then Some (n - 55)
      else None)"

definition is_digit :: "int \<Rightarrow> char \<Rightarrow> bool" where
  "is_digit base c = (case digit_value c of None \<Rightarrow> False | Some d \<Rightarrow> d < base)"

fun digits :: "int \<Rightarrow> int \<Rightarrow> string \<Rightarrow> int \<times> string" where
  "digits base acc [] = (acc, [])"
| "digits base acc (c # cs) =
     (case digit_value c of
        None \<Rightarrow> (acc, c # cs)
      | Some d \<Rightarrow> if d < base then digits base (acc * base + d) cs else (acc, c # cs))"

definition scan_sign :: "string \<Rightarrow> bool \<times> string" where
  "scan_sign s =
     (case s of
        [] \<Rightarrow> (False, s)
      | c # r \<Rightarrow>
          if c = CHR ''-'' then (True, r)
          else if c = CHR ''+'' then (False, r)
          else (False, s))"

definition scan_number :: "string \<Rightarrow> (bool \<times> int \<times> string) option" where
  "scan_number s =
     (let (neg, s2) = scan_sign (dropWhile isspace s) in
      case s2 of
        [] \<Rightarrow> None
      | c # r \<Rightarrow>
          if c = CHR ''0'' \<and>
             (case r of
                x # h # t \<Rightarrow> (x = CHR ''x'' \<or> x = CHR ''X'') \<and> is_digit 16 h
              | _ \<Rightarrow> False)
          then (let (v, rest) = digits 16 0 (tl r) in Some (neg, v, rest))
          else if c = CHR ''0'' then (let (v, rest) = digits 8 0 s2 in Some (neg, v, rest))
          else if is_digit 10 c then (let (v, rest) = digits 10 0 s2 in Some (neg, v, rest))
          else None)"

definition LONG_MAX :: int where
  "LONG_MAX = 9223372036854775807"

definition LONG_MIN :: int where
  "LONG_MIN = - 9223372036854775808"

definition strtol :: "string \<Rightarrow> int \<times> string" where
  "strtol s =
     (case scan_number s of
        None \<Rightarrow> (0, s)
      | Some (neg, v, rest) \<Rightarrow>
          ((if neg then max LONG_MIN (- v) else min LONG_MAX v), rest))"

text \<open>The assignment of a \<^verbatim>\<open>long\<close> to an \<^verbatim>\<open>int\<close> keeps the low 32 bits.\<close>

definition long_to_int :: "int \<Rightarrow> int" where
  "long_to_int v = sint (word_of_int v :: 32 word)"

text \<open>
  What \<^verbatim>\<open>slirp_add_redir\<close> takes from outside this file: \<^verbatim>\<open>inet_aton\<close> of the C
  library (\<open>None\<close> for its result 0), the macro \<^verbatim>\<open>CTL_LOCAL\<close> of the slirp headers
  (the text of the client address), and \<^verbatim>\<open>slirp_redir\<close>, which works on the state
  \<open>'n\<close> of the slirp library and returns a negative number when it fails.
\<close>

record 'n slirp_env =
  inet_aton :: "string \<Rightarrow> uint32 option"
  CTL_LOCAL :: string
  slirp_redir :: "bool \<Rightarrow> int \<Rightarrow> uint32 \<Rightarrow> int \<Rightarrow> 'n \<Rightarrow> int \<times> 'n"

record redir =
  is_udp :: bool
  host_port :: int
  guest_addr :: uint32
  guest_port :: int

text \<open>
  The two port fields are read the same way: \<^verbatim>\<open>strtol\<close>, then the test
  \<^verbatim>\<open>*end != '\0' || port < 1 || port > 65535\<close>.
\<close>

definition parse_port :: "string \<Rightarrow> int option" where
  "parse_port buf =
     (let (v, end) = strtol buf; port = long_to_int v in
      if end \<noteq> [] \<or> port < 1 \<or> port > 65535 then None else Some port)"

definition parse_proto :: "string \<Rightarrow> bool option" where
  "parse_proto buf =
     (if buf = ''tcp'' \<or> buf = [] then Some False
      else if buf = ''udp'' then Some True
      else None)"

text \<open>
  The part of \<^verbatim>\<open>slirp_add_redir\<close> before the call of \<^verbatim>\<open>slirp_redir\<close>; \<open>None\<close> is
  the jump to \<^verbatim>\<open>fail_syntax\<close>. The rule string comes from the preferences and is not
  the null pointer.
\<close>

definition parse_redir :: "('n, 'a) slirp_env_scheme \<Rightarrow> string \<Rightarrow> redir option" where
  "parse_redir E redir_str =
     (case get_str_sep [] 256 redir_str CHR '':'' of
        None \<Rightarrow> None
      | Some (buf1, p1) \<Rightarrow>
     (case parse_proto buf1 of
        None \<Rightarrow> None
      | Some udp \<Rightarrow>
     (case get_str_sep buf1 256 p1 CHR '':'' of
        None \<Rightarrow> None
      | Some (buf2, p2) \<Rightarrow>
     (case parse_port buf2 of
        None \<Rightarrow> None
      | Some hport \<Rightarrow>
     (case get_str_sep buf2 256 p2 CHR '':'' of
        None \<Rightarrow> None
      | Some (buf3, p3) \<Rightarrow>
     (case (if buf3 = [] then inet_aton E (CTL_LOCAL E) else inet_aton E buf3) of
        None \<Rightarrow> None
      | Some addr \<Rightarrow>
     (case parse_port p3 of
        None \<Rightarrow> None
      | Some gport \<Rightarrow>
          Some \<lparr> is_udp = udp, host_port = hport, guest_addr = addr, guest_port = gport \<rparr>)))))))"

text \<open>
  The warning text is built by \<^verbatim>\<open>sprintf\<close> into \<^verbatim>\<open>char str[256]\<close>: the fixed text
  and the rule string between single quotes, then the NUL. A text of 256 characters or
  more does not fit; the C behaviour is then undefined and the model stops with
  \<open>str_overrun\<close>.
\<close>

datatype fault = str_overrun

definition sprintf_str :: "string \<Rightarrow> string \<Rightarrow> fault + string" where
  "sprintf_str text redir_str =
     (let msg = text @ [CHR 0x27] @ redir_str @ [CHR 0x27] in
      if length msg < 256 then Inr msg else Inl str_overrun)"

text \<open>
  \<^verbatim>\<open>slirp_add_redir\<close> returns its result (0 or \<open>-1\<close>), the state of the slirp
  library and the texts passed to \<^verbatim>\<open>WarningAlert\<close>.
\<close>

definition slirp_add_redir ::
  "('n, 'a) slirp_env_scheme \<Rightarrow> string \<Rightarrow> 'n \<Rightarrow> fault + (int \<times> 'n \<times> string list)" where
  "slirp_add_redir E redir_str n =
     (case parse_redir E redir_str of
        None \<Rightarrow>
          (case sprintf_str ''invalid host forwarding rule '' redir_str of
             Inl f \<Rightarrow> Inl f
           | Inr str \<Rightarrow> Inr (- 1, n, [str]))
      | Some r \<Rightarrow>
          let (res, n') = slirp_redir E (is_udp r) (host_port r) (guest_addr r) (guest_port r) n in
          if res < 0
          then (case sprintf_str ''could not set up host forwarding rule '' redir_str of
                  Inl f \<Rightarrow> Inl f
                | Inr str \<Rightarrow> Inr (- 1, n', [str]))
          else Inr (0, n', []))"

text \<open>
  \<^verbatim>\<open>slirp_add_redirs\<close> walks the \<^verbatim>\<open>redir\<close> preference items in order and ignores
  the result of each \<^verbatim>\<open>slirp_add_redir\<close>.
\<close>

fun slirp_add_redirs ::
  "('n, 'a) slirp_env_scheme \<Rightarrow> string list \<Rightarrow> 'n \<Rightarrow> fault + ('n \<times> string list)" where
  "slirp_add_redirs E [] n = Inr (n, [])"
| "slirp_add_redirs E (str # strs) n =
     (case slirp_add_redir E str n of
        Inl f \<Rightarrow> Inl f
      | Inr (res, n1, w1) \<Rightarrow>
          (case slirp_add_redirs E strs n1 of
             Inl f \<Rightarrow> Inl f
           | Inr (n2, w2) \<Rightarrow> Inr (n2, w1 @ w2)))"


section \<open>Concrete inputs\<close>

definition example_layout :: mac_layout where
  "example_layout = \<lparr> ether_data = 0x2000, ed_RHA = 0x40, ed_ReadPacket = 0x100 \<rparr>"

definition example_packet_addr :: uint32 where
  "example_packet_addr = 0x8000"

text \<open>A packet with zero addresses, the given two bytes of type field and \<open>n\<close> more bytes.\<close>

definition frame_of_type :: "uint8 \<Rightarrow> uint8 \<Rightarrow> nat \<Rightarrow> packet" where
  "frame_of_type hi lo n = replicate 12 0 @ [hi, lo] @ replicate n 0"

definition short_frame :: packet where
  "short_frame = replicate 10 0"

definition example_protocols :: "uint16 \<rightharpoonup> uint32" where
  "example_protocols = [0 \<mapsto> 0xA000, 1500 \<mapsto> 0xC000, 1501 \<mapsto> 0xB000, 0x0800 \<mapsto> 0x1000]"

definition example_machine :: machine where
  "example_machine =
     ether_globals.extend
       (initial_globals\<lparr>fd := 5, thread_active := True, net_if_type := NET_IF_SHEEPNET,
          net_protocols := example_protocols\<rparr>)
       (machine.fields [] False AtPoll False)"

text \<open>Two packets, each raised, serviced and acknowledged before the next poll.\<close>

definition two_frames_schedule :: "event list" where
  "two_frames_schedule =
     [HostDelivers (frame_of_type 0x08 0x00 46), PollReturns 1, Triggers, InterruptEnters,
      InterruptReturns, SemaphoreAcquired,
      HostDelivers (frame_of_type 0x05 0xDD 46), PollReturns 1, Triggers, InterruptEnters,
      InterruptReturns, SemaphoreAcquired]"

text \<open>
  The emulator takes the first interrupt between \<^verbatim>\<open>SetInterruptFlag\<close> and
  \<^verbatim>\<open>TriggerInterrupt\<close>.
\<close>

definition early_service_schedule :: "event list" where
  "early_service_schedule =
     [HostDelivers (frame_of_type 0x08 0x00 46), PollReturns 1, InterruptEnters,
      InterruptReturns, Triggers, SemaphoreAcquired,
      HostDelivers (frame_of_type 0x05 0xDD 46), PollReturns 1, Triggers]"

definition raise_schedule :: "event list" where
  "raise_schedule = [HostDelivers (frame_of_type 0x08 0x00 46), PollReturns 1, Triggers]"

text \<open>Two packets are readable before \<^verbatim>\<open>poll\<close> returns.\<close>

definition burst_schedule :: "event list" where
  "burst_schedule =
     [HostDelivers (frame_of_type 0x08 0x00 46), HostDelivers (frame_of_type 0x05 0xDD 46),
      PollReturns 1, Triggers, InterruptEnters, InterruptReturns, SemaphoreAcquired]"

definition short_schedule :: "event list" where
  "short_schedule =
     [HostDelivers short_frame, PollReturns 1, Triggers, InterruptEnters, InterruptReturns,
      SemaphoreAcquired]"

definition failing_write :: sys_write where
  "failing_write d bytes = - 1"

definition full_write :: sys_write where
  "full_write d bytes = int (length bytes)"

definition slirp_globals :: ether_globals where
  "slirp_globals =
     initial_globals\<lparr>fd := 5, thread_active := True, net_if_type := NET_IF_SLIRP,
       slirp_thread_active := True, slirp_output_fd := 6, slirp_input_fds := (7, 8)\<rparr>"

definition sheepnet_globals :: ether_globals where
  "sheepnet_globals =
     initial_globals\<lparr>fd := 5, thread_active := True, net_if_type := NET_IF_SHEEPNET\<rparr>"

text \<open>
  An environment for the redirection rules: an \<^verbatim>\<open>inet_aton\<close> that knows two
  addresses, and a slirp library that keeps the list of installed rules and refuses a
  host port that is already taken.
\<close>

definition example_inet_aton :: "string \<Rightarrow> uint32 option" where
  "example_inet_aton s =
     (if s = ''10.0.2.15'' then Some 0x0F02000A
      else if s = ''2.3.4.5'' then Some 0x05040302
      else None)"

definition example_slirp_redir ::
  "bool \<Rightarrow> int \<Rightarrow> uint32 \<Rightarrow> int \<Rightarrow> redir list \<Rightarrow> int \<times> redir list" where
  "example_slirp_redir u hp ga gp n =
     (if hp \<in> set (map host_port n) then (- 1, n)
      else (0, n @ [\<lparr> is_udp = u, host_port = hp, guest_addr = ga, guest_port = gp \<rparr>]))"

definition example_env :: "redir list slirp_env" where
  "example_env =
     \<lparr> inet_aton = example_inet_aton, CTL_LOCAL = ''10.0.2.15'',
       slirp_redir = example_slirp_redir \<rparr>"

definition long_bad_rule :: string where
  "long_bad_rule = replicate 240 CHR ''x''"


section \<open>Lemmas about the model\<close>

lemma result_codes_distinct: "lapProtErr \<noteq> noErr" "excessCollsns \<noteq> noErr"
  by (simp_all add: lapProtErr_def excessCollsns_def noErr_def)

lemma search_type_unat: "search_type t = (if unat t \<le> 1500 then 0 else t)"
  by (simp add: search_type_def word_le_nat_alt)

lemma ReadMacInt16_take: "14 \<le> n \<Longrightarrow> ReadMacInt16 (take n mem) 12 = ReadMacInt16 mem 12"
  by (simp add: ReadMacInt16_def)

lemma ReadMacInt16_frame_of_type:
  "ReadMacInt16 (frame_of_type hi lo n) 12 = push_bit 8 (ucast hi) OR ucast lo"
  by (simp add: frame_of_type_def ReadMacInt16_def nth_append)

lemma handlers_run_dispatch:
  "handlers_run (ether_dispatch_packet L protocols mem p len)
     = (case protocols (search_type (ReadMacInt16 mem 12)) of
          None \<Rightarrow> [] | Some h \<Rightarrow> if h = 0 then [] else [h])"
  by (simp add: ether_dispatch_packet_def Let_def split: option.splits)

lemma handlers_run_append: "handlers_run (xs @ ys) = handlers_run xs @ handlers_run ys"
  by (induction xs rule: handlers_run.induct) simp_all

lemma deliverable_handlers:
  "length (handlers_run (ether_dispatch_packet L protocols mem p len))
     = (if deliverable protocols mem then 1 else 0)"
  by (simp add: handlers_run_dispatch deliverable_def split: option.splits)

lemma deliverable_take: "14 \<le> n \<Longrightarrow> deliverable protocols (take n c) = deliverable protocols c"
  by (simp add: deliverable_def ReadMacInt16_take)

lemma handler_of_dispatch:
  "handlers_run (ether_dispatch_packet L protocols mem p len) = handler_of protocols mem"
  by (simp add: handlers_run_dispatch handler_of_def)

lemma handler_of_take: "14 \<le> n \<Longrightarrow> handler_of protocols (take n c) = handler_of protocols c"
  by (simp add: handler_of_def ReadMacInt16_take)

lemma length_handler_of:
  "length (handler_of protocols c) = (if deliverable protocols c then 1 else 0)"
  by (simp add: handler_of_def deliverable_def split: option.splits)

lemma length_concat_handler_of:
  "length (concat (map (handler_of protocols) cs)) = length (filter (deliverable protocols) cs)"
  by (induction cs) (simp_all add: length_handler_of)

text \<open>The loop body of \<^verbatim>\<open>ether_do_interrupt\<close>, with the length test on the packet.\<close>

lemma ether_do_interrupt_Cons:
  "ether_do_interrupt L pk s (c # q)
     = (if length c < 14 then ([], q)
        else ((if udp_tunnel s then [ether_udp_read (take 1514 c)]
               else ether_dispatch_packet L (net_protocols s) (take 1514 c) pk
                      (word_of_int (int (length (take 1514 c)))))
                @ fst (ether_do_interrupt L pk s q),
              snd (ether_do_interrupt L pk s q)))"
proof -
  have "(int (length (take 1514 c)) < 14) = (length c < 14)"
    by auto
  then show ?thesis
    by (simp add: Let_def split: prod.splits del: length_take)
qed

text \<open>With an empty table the interrupt routine runs no handler, whatever is pending.\<close>

lemma no_protocols_no_handlers:
  "net_protocols s = Map.empty \<Longrightarrow> handlers_run (fst (ether_do_interrupt L pk s q)) = []"
  by (induction q)
     (simp_all add: ether_do_interrupt_Cons handlers_run_append handlers_run_dispatch
        del: ether_do_interrupt.simps(2))

lemma example_machine_simps:
  "recv_pc example_machine = AtPoll" "int_ack example_machine = 0"
  "InterruptFlags_ETHER example_machine = False" "pending example_machine = []"
  "in_interrupt example_machine = False"
  "udp_tunnel example_machine = False" "net_protocols example_machine = example_protocols"
  by (simp_all add: example_machine_def initial_globals_def ether_globals.defs machine.defs)

lemma raise_after_ack_Guest:
  "raise_after_ack b (map Guest acts @ tr) = raise_after_ack b tr"
  by (induction acts) simp_all

lemma triggers_acked_Guest:
  "triggers_acked t a (map Guest acts @ tr) = triggers_acked t a tr"
  by (induction acts) simp_all

text \<open>Every step keeps the invariant, and extends a good trace to a good trace.\<close>

lemma step_inv:
  assumes "bridge_inv m" and "step L pk e m = Some (m', tr)"
  shows "bridge_inv m'
       \<and> (raise_after_ack (InterruptFlags_ETHER m' \<or> in_interrupt m') tr2
            \<longrightarrow> raise_after_ack (InterruptFlags_ETHER m \<or> in_interrupt m) (tr @ tr2))"
  using assms
  by (cases e)
     (auto simp: bridge_inv_def receive_func_poll_def receive_func_trigger_def
        ether_driver_opened_def dispatch_semaphore_wait_def dispatch_semaphore_signal_def
        interrupt_enters_def interrupt_returns_def run_ether_do_interrupt_def
        raise_after_ack_Guest
        split: if_splits option.splits prod.splits)

lemma step_counts:
  assumes "counts_agree t a m" and "step L pk e m = Some (m', tr)"
  shows "\<exists>t' a'. counts_agree t' a' m'
           \<and> (\<forall>tr2. triggers_acked t' a' tr2 \<longrightarrow> triggers_acked t a (tr @ tr2))"
proof (cases e)
  case (PollReturns res)
  with assms show ?thesis
    by (intro exI [of _ t] exI [of _ a])
       (auto simp: counts_agree_def receive_func_poll_def ether_driver_opened_def
          split: if_splits)
next
  case Triggers
  with assms show ?thesis
    by (intro exI [of _ "Suc t"] exI [of _ a])
       (auto simp: counts_agree_def receive_func_trigger_def split: if_splits)
next
  case SemaphoreAcquired
  with assms show ?thesis
    by (intro exI [of _ t] exI [of _ a])
       (auto simp: counts_agree_def dispatch_semaphore_wait_def split: if_splits option.splits)
next
  case InterruptEnters
  with assms show ?thesis
    by (intro exI [of _ t] exI [of _ a])
       (auto simp: counts_agree_def interrupt_enters_def run_ether_do_interrupt_def
          triggers_acked_Guest [where tr = "[]", simplified] triggers_acked_Guest
          split: if_splits prod.splits)
next
  case InterruptReturns
  with assms show ?thesis
    by (intro exI [of _ t] exI [of _ "Suc a"])
       (auto simp: counts_agree_def interrupt_returns_def dispatch_semaphore_signal_def
          split: if_splits)
next
  case (HostDelivers c)
  with assms show ?thesis
    by (intro exI [of _ t] exI [of _ a]) (auto simp: counts_agree_def)
qed

lemma run_inv:
  "bridge_inv m \<Longrightarrow> run L pk es m = Some (m', tr)
     \<Longrightarrow> bridge_inv m' \<and> raise_after_ack (InterruptFlags_ETHER m \<or> in_interrupt m) tr"
proof (induction es arbitrary: m tr)
  case Nil
  then show ?case by simp
next
  case (Cons e es)
  from Cons.prems(2) obtain m1 o1 o2
    where s: "step L pk e m = Some (m1, o1)"
      and r: "run L pk es m1 = Some (m', o2)"
      and t: "tr = o1 @ o2"
    by (auto split: option.splits prod.splits)
  from step_inv [OF Cons.prems(1) s]
  have i1: "bridge_inv m1"
    and a1: "raise_after_ack (InterruptFlags_ETHER m1 \<or> in_interrupt m1) o2
               \<longrightarrow> raise_after_ack (InterruptFlags_ETHER m \<or> in_interrupt m) (o1 @ o2)"
    by blast+
  from Cons.IH [OF i1 r] a1 show ?case
    by (simp add: t)
qed

lemma run_counts:
  "counts_agree t a m \<Longrightarrow> run L pk es m = Some (m', tr) \<Longrightarrow> triggers_acked t a tr"
proof (induction es arbitrary: m tr t a)
  case Nil
  then show ?case by simp
next
  case (Cons e es)
  from Cons.prems(2) obtain m1 o1 o2
    where s: "step L pk e m = Some (m1, o1)"
      and r: "run L pk es m1 = Some (m', o2)"
      and tr: "tr = o1 @ o2"
    by (auto split: option.splits prod.splits)
  from step_counts [OF Cons.prems(1) s] obtain t' a'
    where c: "counts_agree t' a' m1"
      and k: "\<forall>tr2. triggers_acked t' a' tr2 \<longrightarrow> triggers_acked t a (o1 @ tr2)"
    by blast
  from Cons.IH [OF c r] k show ?case
    by (simp add: tr)
qed

text \<open>The interrupt routine looks at two of the driver's variables only.\<close>

lemma ether_do_interrupt_cong:
  "udp_tunnel s = udp_tunnel s' \<Longrightarrow> net_protocols s = net_protocols s'
     \<Longrightarrow> ether_do_interrupt L pk s q = ether_do_interrupt L pk s' q"
  by (induction q) (simp_all add: ether_do_interrupt_Cons del: ether_do_interrupt.simps(2))

text \<open>
  Entering and leaving the interrupt are the two halves of \<^verbatim>\<open>EtherInterrupt\<close>, run
  on the state with the flag taken.
\<close>

lemma EtherInterrupt_steps:
  assumes "InterruptFlags_ETHER m" and "\<not> in_interrupt m"
  shows "run L pk [InterruptEnters, InterruptReturns] m
           = Some (fst (EtherInterrupt L pk (m\<lparr>InterruptFlags_ETHER := False\<rparr>)),
                   snd (EtherInterrupt L pk (m\<lparr>InterruptFlags_ETHER := False\<rparr>)))"
proof -
  have same: "ether_do_interrupt L pk
                 (m\<lparr>InterruptFlags_ETHER := False, in_interrupt := True\<rparr>) (pending m)
          = ether_do_interrupt L pk (m\<lparr>InterruptFlags_ETHER := False\<rparr>) (pending m)"
    by (rule ether_do_interrupt_cong) simp_all
  obtain acts rest
    where d: "ether_do_interrupt L pk (m\<lparr>InterruptFlags_ETHER := False\<rparr>) (pending m)
                = (acts, rest)"
    by (cases "ether_do_interrupt L pk (m\<lparr>InterruptFlags_ETHER := False\<rparr>) (pending m)")
  have enter: "interrupt_enters L pk m
      = Some (m\<lparr>InterruptFlags_ETHER := False, in_interrupt := True, pending := rest\<rparr>,
              map Guest acts)"
    using assms(1) by (simp add: interrupt_enters_def run_ether_do_interrupt_def same d)
  have leave: "interrupt_returns
        (m\<lparr>InterruptFlags_ETHER := False, in_interrupt := True, pending := rest\<rparr>)
      = Some (m\<lparr>InterruptFlags_ETHER := False, pending := rest, int_ack := Suc (int_ack m)\<rparr>,
              [SemaphoreSignal])"
    using assms(2) by (cases m) (simp add: interrupt_returns_def dispatch_semaphore_signal_def)
  have whole: "EtherInterrupt L pk (m\<lparr>InterruptFlags_ETHER := False\<rparr>)
      = (m\<lparr>InterruptFlags_ETHER := False, pending := rest, int_ack := Suc (int_ack m)\<rparr>,
         map Guest acts @ [SemaphoreSignal])"
    by (simp add: EtherInterrupt_def run_ether_do_interrupt_def dispatch_semaphore_signal_def d)
  show ?thesis
    by (simp add: enter leave whole)
qed

lemma start_thread_started:
  "\<not> InterruptFlags_ETHER m \<Longrightarrow> \<not> in_interrupt m
     \<Longrightarrow> start_thread a b c m = (True, m') \<Longrightarrow> started m'"
  by (auto simp: start_thread_def started_def Let_def split: if_splits)


section \<open>The protocol table\<close>

text \<open>
  C5. Attaching a handler for a type that has no entry succeeds and stores the handler;
  attaching again for the same type fails with \<open>lapProtErr\<close> (the driver's
  already-attached result) and changes nothing; detaching removes the entry, after which
  attaching succeeds again; detaching a type that has no entry fails with
  \<open>lapProtErr\<close> (the driver's not-attached result).
\<close>

theorem attach_detach_protocol:
  assumes "net_protocols s t = None"
  shows "ether_attach_ph t h s = (noErr, s\<lparr>net_protocols := (net_protocols s)(t \<mapsto> h)\<rparr>)
       \<and> ether_attach_ph t h2 (snd (ether_attach_ph t h s)) = (lapProtErr, snd (ether_attach_ph t h s))
       \<and> ether_detach_ph t (snd (ether_attach_ph t h s)) = (noErr, s)
       \<and> ether_attach_ph t h2 (snd (ether_detach_ph t (snd (ether_attach_ph t h s))))
           = (noErr, s\<lparr>net_protocols := (net_protocols s)(t \<mapsto> h2)\<rparr>)
       \<and> ether_detach_ph t s = (lapProtErr, s)
       \<and> lapProtErr \<noteq> noErr"
proof -
  have erase: "s\<lparr>net_protocols := (net_protocols s)(t := None)\<rparr> = s"
    using assms by (simp add: fun_upd_idem)
  show ?thesis
    using assms erase
    by (simp add: ether_attach_ph_def ether_detach_ph_def result_codes_distinct)
qed

theorem attach_detach_protocol_witness:
  "fst (ether_attach_ph 0x0800 0x1000 initial_globals) = noErr
   \<and> net_protocols (snd (ether_attach_ph 0x0800 0x1000 initial_globals)) 0x0800 = Some 0x1000
   \<and> fst (ether_attach_ph 0x0800 0x2000 (snd (ether_attach_ph 0x0800 0x1000 initial_globals))) = lapProtErr
   \<and> fst (ether_detach_ph 0x0800 initial_globals) = lapProtErr"
proof -
  have h: "net_protocols initial_globals 0x0800 = None"
    by (simp add: initial_globals_def)
  note w = attach_detach_protocol [OF h, of "0x1000" "0x2000"]
  have a: "ether_attach_ph 0x0800 0x1000 initial_globals
             = (noErr, initial_globals\<lparr>net_protocols := (net_protocols initial_globals)(0x0800 \<mapsto> 0x1000)\<rparr>)"
    using w by blast
  have b: "ether_attach_ph 0x0800 0x2000 (snd (ether_attach_ph 0x0800 0x1000 initial_globals))
             = (lapProtErr, snd (ether_attach_ph 0x0800 0x1000 initial_globals))"
    using w by blast
  have c: "ether_detach_ph 0x0800 initial_globals = (lapProtErr, initial_globals)"
    using w by blast
  show ?thesis
    by (simp add: b c) (simp add: a)
qed

text \<open>
  C9. \<^verbatim>\<open>ether_reset\<close> empties the protocol table: afterwards no type has a handler,
  no packet is dispatched and the interrupt routine runs no handler whatever is
  pending. Every other variable of the driver (descriptor, thread
  flags, UDP-tunnel flag, Ethernet address, and whatever else the state holds) keeps
  its value.
\<close>

theorem ether_reset_clears_only_protocols:
  "net_protocols (ether_reset s) t = None
   \<and> ether_dispatch_packet L (net_protocols (ether_reset s)) mem p len = []
   \<and> handlers_run (fst (ether_do_interrupt L pk (ether_reset s) q)) = []
   \<and> fd (ether_reset s) = fd s
   \<and> thread_active (ether_reset s) = thread_active s
   \<and> int_ack (ether_reset s) = int_ack s
   \<and> udp_tunnel (ether_reset s) = udp_tunnel s
   \<and> net_if_type (ether_reset s) = net_if_type s
   \<and> slirp_thread_active (ether_reset s) = slirp_thread_active s
   \<and> slirp_output_fd (ether_reset s) = slirp_output_fd s
   \<and> slirp_input_fds (ether_reset s) = slirp_input_fds s
   \<and> ether_addr (ether_reset s) = ether_addr s
   \<and> ether_globals.more (ether_reset s) = ether_globals.more s"
proof -
  have "net_protocols (ether_reset s) = Map.empty"
    by (simp add: ether_reset_def)
  then have "handlers_run (fst (ether_do_interrupt L pk (ether_reset s) q)) = []"
    by (rule no_protocols_no_handlers)
  then show ?thesis
    by (simp add: ether_reset_def ether_dispatch_packet_def)
qed


text \<open>A run of \<^verbatim>\<open>ether_reset\<close> on a table with four handlers.\<close>

theorem ether_reset_clears_only_protocols_witness:
  "net_protocols (ether_reset example_machine) 0x0800 = None
   \<and> net_protocols example_machine 0x0800 = Some 0x1000
   \<and> fd (ether_reset example_machine) = 5
   \<and> recv_pc (ether_reset example_machine) = AtPoll"
proof -
  note w = ether_reset_clears_only_protocols [where s = example_machine and t = "0x0800"]
  have "ether_globals.more (ether_reset example_machine) = ether_globals.more example_machine"
    and "fd (ether_reset example_machine) = fd example_machine"
    and "net_protocols (ether_reset example_machine) 0x0800 = None"
    using w by blast+
  then show ?thesis
    by (simp add: example_machine_def initial_globals_def example_protocols_def
        ether_reset_def ether_globals.defs machine.defs)
qed

text \<open>
  C10. \<^verbatim>\<open>ether_attach_ph\<close> does not look at the handler: for every type that has no
  entry, attaching the null handler succeeds and stores 0. While the entry is there,
  every packet of at least 14 bytes whose search type is that type is dropped by
  \<^verbatim>\<open>ether_dispatch_packet\<close> without any action on the guest, and attaching a real
  handler fails with \<open>lapProtErr\<close>; after \<^verbatim>\<open>ether_detach_ph\<close> the real handler
  can be attached. Only the clause about packets speaks of a packet: the clauses about
  attaching and detaching hold for every type, also for the types 1 to 1500, which no
  packet resolves to.
\<close>

theorem null_handler_attach:
  assumes "net_protocols s t = None"
  shows "ether_attach_ph t 0 s = (noErr, s\<lparr>net_protocols := (net_protocols s)(t \<mapsto> 0)\<rparr>)
       \<and> (14 \<le> length mem \<and> search_type (ReadMacInt16 mem 12) = t \<longrightarrow>
            ether_dispatch_packet L (net_protocols (snd (ether_attach_ph t 0 s))) mem p len = [])
       \<and> ether_attach_ph t h (snd (ether_attach_ph t 0 s)) = (lapProtErr, snd (ether_attach_ph t 0 s))
       \<and> lapProtErr \<noteq> noErr
       \<and> ether_detach_ph t (snd (ether_attach_ph t 0 s)) = (noErr, s)
       \<and> ether_attach_ph t h (snd (ether_detach_ph t (snd (ether_attach_ph t 0 s))))
           = (noErr, s\<lparr>net_protocols := (net_protocols s)(t \<mapsto> h)\<rparr>)"
proof -
  have erase: "s\<lparr>net_protocols := (net_protocols s)(t := None)\<rparr> = s"
    using assms by (simp add: fun_upd_idem)
  show ?thesis
    using assms erase
    by (simp add: ether_attach_ph_def ether_detach_ph_def ether_dispatch_packet_def
        result_codes_distinct)
qed

theorem null_handler_attach_witness:
  "fst (ether_attach_ph 0x0800 0 initial_globals) = noErr
   \<and> ether_dispatch_packet example_layout
        (net_protocols (snd (ether_attach_ph 0x0800 0 initial_globals)))
        (frame_of_type 0x08 0x00 46) example_packet_addr 60 = []
   \<and> fst (ether_attach_ph 0x0800 0x1000 (snd (ether_attach_ph 0x0800 0 initial_globals))) = lapProtErr
   \<and> fst (ether_attach_ph 0x0800 0x1000
        (snd (ether_detach_ph 0x0800 (snd (ether_attach_ph 0x0800 0 initial_globals))))) = noErr
   \<and> fst (ether_attach_ph 100 0 initial_globals) = noErr
   \<and> net_protocols (snd (ether_attach_ph 100 0 initial_globals)) 100 = Some 0
   \<and> fst (ether_attach_ph 100 0x1000 (snd (ether_attach_ph 100 0 initial_globals))) = lapProtErr
   \<and> fst (ether_attach_ph 100 0x1000
        (snd (ether_detach_ph 100 (snd (ether_attach_ph 100 0 initial_globals))))) = noErr"
proof -
  have n: "net_protocols initial_globals 0x0800 = None" "net_protocols initial_globals 100 = None"
    by (simp_all add: initial_globals_def)
  have l: "14 \<le> length (frame_of_type 0x08 0x00 46)"
    by (simp add: frame_of_type_def)
  have k: "search_type (ReadMacInt16 (frame_of_type 0x08 0x00 46) 12) = 0x0800"
    by (simp add: ReadMacInt16_frame_of_type search_type_def)
  note w = null_handler_attach [OF n(1), where L = example_layout and p = example_packet_addr
      and len = 60 and h = "0x1000" and mem = "frame_of_type 0x08 0x00 46"]
  note v = null_handler_attach [OF n(2), where h = "0x1000"]
  have w1: "ether_attach_ph 0x0800 0 initial_globals
              = (noErr, initial_globals\<lparr>net_protocols := (net_protocols initial_globals)(0x0800 \<mapsto> 0)\<rparr>)"
    and w2: "ether_dispatch_packet example_layout
        (net_protocols (snd (ether_attach_ph 0x0800 0 initial_globals)))
        (frame_of_type 0x08 0x00 46) example_packet_addr 60 = []"
    and w3: "ether_attach_ph 0x0800 0x1000 (snd (ether_attach_ph 0x0800 0 initial_globals))
              = (lapProtErr, snd (ether_attach_ph 0x0800 0 initial_globals))"
    and w4: "ether_attach_ph 0x0800 0x1000
               (snd (ether_detach_ph 0x0800 (snd (ether_attach_ph 0x0800 0 initial_globals))))
              = (noErr, initial_globals\<lparr>net_protocols := (net_protocols initial_globals)(0x0800 \<mapsto> 0x1000)\<rparr>)"
    using w l k by blast+
  have v1: "ether_attach_ph 100 0 initial_globals
              = (noErr, initial_globals\<lparr>net_protocols := (net_protocols initial_globals)(100 \<mapsto> 0)\<rparr>)"
    and v3: "ether_attach_ph 100 0x1000 (snd (ether_attach_ph 100 0 initial_globals))
              = (lapProtErr, snd (ether_attach_ph 100 0 initial_globals))"
    and v4: "ether_attach_ph 100 0x1000
               (snd (ether_detach_ph 100 (snd (ether_attach_ph 100 0 initial_globals))))
              = (noErr, initial_globals\<lparr>net_protocols := (net_protocols initial_globals)(100 \<mapsto> 0x1000)\<rparr>)"
    using v by blast+
  show ?thesis
    by (simp add: w2 w3 w4 v3 v4) (simp add: w1 v1)
qed


section \<open>Dispatch and the interrupt routine\<close>

text \<open>
  C3. For a received packet of at least 14 bytes on a descriptor that is not the UDP
  tunnel, the search type is 0 when the 16-bit field at offset 12 is at most 1500 and
  the field's value when it is larger, and the handler that \<^verbatim>\<open>ether_do_interrupt\<close>
  runs is the table's entry under that key. A field of 1500 uses key 0, a field of
  1501 uses key 1501.
\<close>

theorem dispatch_key_of_type:
  assumes "14 \<le> length f" and "\<not> udp_tunnel s"
  shows "search_type (ReadMacInt16 f 12)
           = (if unat (ReadMacInt16 f 12) \<le> 1500 then 0 else ReadMacInt16 f 12)
       \<and> handlers_run (fst (ether_do_interrupt L pk s [f]))
           = (case net_protocols s
                     (if unat (ReadMacInt16 f 12) \<le> 1500 then 0 else ReadMacInt16 f 12) of
                None \<Rightarrow> [] | Some h \<Rightarrow> if h = 0 then [] else [h])
       \<and> (ReadMacInt16 f 12 = 1500 \<longrightarrow>
            handlers_run (fst (ether_do_interrupt L pk s [f]))
              = (case net_protocols s 0 of None \<Rightarrow> [] | Some h \<Rightarrow> if h = 0 then [] else [h]))
       \<and> (ReadMacInt16 f 12 = 1501 \<longrightarrow>
            handlers_run (fst (ether_do_interrupt L pk s [f]))
              = (case net_protocols s 1501 of None \<Rightarrow> [] | Some h \<Rightarrow> if h = 0 then [] else [h]))"
proof -
  have len: "\<not> int (length (take 1514 f)) < 14"
    using assms(1) by simp
  have run: "handlers_run (fst (ether_do_interrupt L pk s [f]))
               = (case net_protocols s (search_type (ReadMacInt16 f 12)) of
                    None \<Rightarrow> [] | Some h \<Rightarrow> if h = 0 then [] else [h])"
    using assms(2) len
    by (simp add: Let_def handlers_run_dispatch ReadMacInt16_take del: length_take)
  show ?thesis
    unfolding run by (simp add: search_type_unat)
qed

theorem dispatch_key_of_type_witness:
  "handlers_run (fst (ether_do_interrupt example_layout example_packet_addr
       (initial_globals\<lparr>net_protocols := example_protocols\<rparr>) [frame_of_type 0x05 0xDC 46]))
     = [0xA000]
   \<and> handlers_run (fst (ether_do_interrupt example_layout example_packet_addr
       (initial_globals\<lparr>net_protocols := example_protocols\<rparr>) [frame_of_type 0x05 0xDD 46]))
     = [0xB000]"
proof -
  have l: "14 \<le> length (frame_of_type hi lo 46)" for hi lo
    by (simp add: frame_of_type_def)
  have u: "\<not> udp_tunnel (initial_globals\<lparr>net_protocols := example_protocols\<rparr>)"
    by (simp add: initial_globals_def)
  have t: "ReadMacInt16 (frame_of_type 0x05 0xDC 46) 12 = 1500"
          "ReadMacInt16 (frame_of_type 0x05 0xDD 46) 12 = 1501"
    by (simp_all add: ReadMacInt16_frame_of_type)
  show ?thesis
    using dispatch_key_of_type [OF l [of "0x05" "0xDC"] u,
            where L = example_layout and pk = example_packet_addr]
          dispatch_key_of_type [OF l [of "0x05" "0xDD"] u,
            where L = example_layout and pk = example_packet_addr]
    by (simp add: t example_protocols_def)
qed

text \<open>
  C2, as stated, fails. On the raw device, where a read returns one packet, two packets
  become readable before the reception thread's \<^verbatim>\<open>poll\<close> returns; the thread raises
  one interrupt, and the interrupt routine, which loops until a read is short, runs a
  handler for each of the two packets.
\<close>

theorem one_frame_per_interrupt_counterexample:
  "count_list (trace_of (run example_layout example_packet_addr burst_schedule example_machine))
       TriggerInterrupt = 1
   \<and> handlers_run (guest_actions (trace_of
         (run example_layout example_packet_addr burst_schedule example_machine)))
       = [0x1000, 0xB000]"
  by code_simp

text \<open>
  C2, amended, stated of reads. One handling of the interrupt calls \<^verbatim>\<open>read\<close> until a
  call returns fewer than 14 bytes, and treats the result of each earlier call as one
  packet. On a descriptor that is not the UDP tunnel, the handlers it runs are, in
  order, the handlers of the results of the reads before the first short one, each
  looked up by the type field at offset 12 of the result; their number is the number
  of deliverable results among them: none, one or several. What stays pending is what
  came after the first short read. Where one read returns one frame these are the
  pending frames; where one read returns two frames joined, as the slirp pipe allows,
  they are dispatched as one packet, by the header of the first.
\<close>

theorem interrupt_dispatches_leading_reads:
  assumes "\<not> udp_tunnel s"
  shows "handlers_run (fst (ether_do_interrupt L pk s reads))
           = concat (map (handler_of (net_protocols s))
                       (takeWhile (\<lambda>c. 14 \<le> length c) reads))
       \<and> length (handlers_run (fst (ether_do_interrupt L pk s reads)))
           = length (filter (deliverable (net_protocols s))
                       (takeWhile (\<lambda>c. 14 \<le> length c) reads))
       \<and> snd (ether_do_interrupt L pk s reads) = tl (dropWhile (\<lambda>c. 14 \<le> length c) reads)"
proof -
  have run: "handlers_run (fst (ether_do_interrupt L pk s reads))
               = concat (map (handler_of (net_protocols s))
                           (takeWhile (\<lambda>c. 14 \<le> length c) reads))
           \<and> snd (ether_do_interrupt L pk s reads)
               = tl (dropWhile (\<lambda>c. 14 \<le> length c) reads)"
  proof (induction reads)
    case Nil
    show ?case by simp
  next
    case (Cons c reads)
    then show ?case
      using assms
      by (simp add: ether_do_interrupt_Cons handlers_run_append handler_of_dispatch
          handler_of_take del: ether_do_interrupt.simps length_take)
  qed
  then show ?thesis
    by (simp add: length_concat_handler_of)
qed

theorem interrupt_dispatches_leading_reads_witness:
  "handlers_run (fst (ether_do_interrupt example_layout example_packet_addr example_machine
       [frame_of_type 0x08 0x00 46, frame_of_type 0x05 0xDD 46, short_frame,
        frame_of_type 0x08 0x00 46])) = [0x1000, 0xB000]
   \<and> snd (ether_do_interrupt example_layout example_packet_addr example_machine
       [frame_of_type 0x08 0x00 46, frame_of_type 0x05 0xDD 46, short_frame,
        frame_of_type 0x08 0x00 46]) = [frame_of_type 0x08 0x00 46]
   \<and> handlers_run (fst (ether_do_interrupt example_layout example_packet_addr
       (example_machine\<lparr>net_if_type := NET_IF_SLIRP\<rparr>)
       [frame_of_type 0x08 0x00 46 @ frame_of_type 0x05 0xDD 46])) = [0x1000]"
proof -
  have u: "\<not> udp_tunnel example_machine"
          "\<not> udp_tunnel (example_machine\<lparr>net_if_type := NET_IF_SLIRP\<rparr>)"
    by (simp_all add: example_machine_simps)
  have h: "handler_of example_protocols (frame_of_type 0x08 0x00 46) = [0x1000]"
          "handler_of example_protocols (frame_of_type 0x05 0xDD 46) = [0xB000]"
          "handler_of example_protocols (frame_of_type 0x08 0x00 46 @ frame_of_type 0x05 0xDD 46)
             = [0x1000]"
    by (simp_all add: handler_of_def ReadMacInt16_def frame_of_type_def nth_append
        search_type_def example_protocols_def)
  have l: "14 \<le> length (frame_of_type hi lo 46)" "\<not> 14 \<le> length short_frame"
          "14 \<le> length (frame_of_type hi lo 46) + length (frame_of_type hi' lo' 46)"
    for hi lo hi' lo'
    by (simp_all add: frame_of_type_def short_frame_def)
  note a = interrupt_dispatches_leading_reads [OF u(1), where L = example_layout
      and pk = example_packet_addr
      and reads = "[frame_of_type 0x08 0x00 46, frame_of_type 0x05 0xDD 46, short_frame,
          frame_of_type 0x08 0x00 46]"]
  note b = interrupt_dispatches_leading_reads [OF u(2), where L = example_layout
      and pk = example_packet_addr
      and reads = "[frame_of_type 0x08 0x00 46 @ frame_of_type 0x05 0xDD 46]"]
  have a1: "handlers_run (fst (ether_do_interrupt example_layout example_packet_addr
       example_machine
       [frame_of_type 0x08 0x00 46, frame_of_type 0x05 0xDD 46, short_frame,
        frame_of_type 0x08 0x00 46]))
     = concat (map (handler_of (net_protocols example_machine))
         (takeWhile (\<lambda>c. 14 \<le> length c)
           [frame_of_type 0x08 0x00 46, frame_of_type 0x05 0xDD 46, short_frame,
            frame_of_type 0x08 0x00 46]))"
    and a2: "snd (ether_do_interrupt example_layout example_packet_addr example_machine
       [frame_of_type 0x08 0x00 46, frame_of_type 0x05 0xDD 46, short_frame,
        frame_of_type 0x08 0x00 46])
     = tl (dropWhile (\<lambda>c. 14 \<le> length c)
           [frame_of_type 0x08 0x00 46, frame_of_type 0x05 0xDD 46, short_frame,
            frame_of_type 0x08 0x00 46])"
    using a by blast+
  have b1: "handlers_run (fst (ether_do_interrupt example_layout example_packet_addr
       (example_machine\<lparr>net_if_type := NET_IF_SLIRP\<rparr>)
       [frame_of_type 0x08 0x00 46 @ frame_of_type 0x05 0xDD 46]))
     = concat (map (handler_of (net_protocols (example_machine\<lparr>net_if_type := NET_IF_SLIRP\<rparr>)))
         (takeWhile (\<lambda>c. 14 \<le> length c)
           [frame_of_type 0x08 0x00 46 @ frame_of_type 0x05 0xDD 46]))"
    using b by blast
  show ?thesis
    unfolding a1 a2 b1
    by (simp add: l h example_machine_simps)
qed

text \<open>
  C4, as stated, fails in its second half. A packet of 10 bytes becomes readable,
  \<^verbatim>\<open>poll\<close> returns 1, and the reception thread, which never reads the packet, raises
  the interrupt. The interrupt routine then drops the packet without any action on the
  guest.
\<close>

theorem short_frame_no_interrupt_counterexample:
  "length short_frame < 14
   \<and> count_list (trace_of (run example_layout example_packet_addr short_schedule example_machine))
        TriggerInterrupt = 1
   \<and> guest_actions (trace_of
        (run example_layout example_packet_addr short_schedule example_machine)) = []"
  by code_simp

text \<open>
  C4, amended. A packet shorter than 14 bytes is silently dropped by the interrupt
  routine: read at the head of the pending packets it is consumed with no action on the
  guest, and wherever it stands among them the actions of the routine are those for
  the packets before it. The reception thread does not look at packets: whenever
  \<^verbatim>\<open>poll\<close> reports the descriptor ready it sets the interrupt flag and triggers the
  interrupt, whatever is pending.
\<close>

theorem short_frame_never_dispatched:
  assumes "length c < 14"
  shows "fst (ether_do_interrupt L pk s (pre @ c # post)) = fst (ether_do_interrupt L pk s pre)
       \<and> ether_do_interrupt L pk s (c # post) = ([], post)
       \<and> (recv_pc m = AtPoll \<and> 0 < res \<longrightarrow>
            trace_of (run L pk [PollReturns res, Triggers] m)
              = [SetInterruptFlag, TriggerInterrupt])"
proof -
  have "fst (ether_do_interrupt L pk s (pre @ c # post)) = fst (ether_do_interrupt L pk s pre)"
  proof (induction pre)
    case Nil
    show ?case
      using assms by (simp add: ether_do_interrupt_Cons del: ether_do_interrupt.simps(2))
  next
    case (Cons a pre)
    then show ?case
      by (simp add: ether_do_interrupt_Cons del: ether_do_interrupt.simps(2))
  qed
  then show ?thesis
    using assms
    by (simp add: ether_do_interrupt_Cons receive_func_poll_def receive_func_trigger_def
        ether_driver_opened_def del: ether_do_interrupt.simps(2))
qed

theorem short_frame_never_dispatched_witness:
  "ether_do_interrupt example_layout example_packet_addr example_machine
       [short_frame, frame_of_type 0x08 0x00 46] = ([], [frame_of_type 0x08 0x00 46])
   \<and> trace_of (run example_layout example_packet_addr [PollReturns 1, Triggers]
        (example_machine\<lparr>pending := [short_frame]\<rparr>))
       = [SetInterruptFlag, TriggerInterrupt]"
proof -
  have l: "length short_frame < 14"
    by (simp add: short_frame_def)
  show ?thesis
    using short_frame_never_dispatched [OF l, where L = example_layout
        and pk = example_packet_addr and s = example_machine and pre = "[]"
        and post = "[frame_of_type 0x08 0x00 46]" and res = 1
        and m = "example_machine\<lparr>pending := [short_frame]\<rparr>"]
    by (simp add: example_machine_simps)
qed


section \<open>One interrupt at a time\<close>

text \<open>
  When the emulator takes the first interrupt before the thread's \<^verbatim>\<open>TriggerInterrupt\<close>,
  the acknowledgment comes first and two triggers follow it with no acknowledgment
  between them: the first trigger finds nothing left to service, and the second belongs
  to the next interrupt. This is why the triggers are counted against the
  acknowledgments, while the raising of the flag alternates with them.
\<close>

lemma early_service_trace:
  "filter (\<lambda>x. x = SetInterruptFlag \<or> x = TriggerInterrupt \<or> x = SemaphoreSignal)
     (trace_of (run example_layout example_packet_addr early_service_schedule example_machine))
     = [SetInterruptFlag, SemaphoreSignal, TriggerInterrupt, SetInterruptFlag, TriggerInterrupt]"
  by code_simp

text \<open>
  C1. From the state \<^verbatim>\<open>start_thread\<close> leaves, whatever the host delivers and
  however the steps of the reception thread and of the emulator interleave, the thread
  never raises an interrupt while an earlier one is unacknowledged: between two
  \<open>SetInterruptFlag\<close>s of a trace there is a \<open>SemaphoreSignal\<close>, which only
  \<^verbatim>\<open>EtherInterrupt\<close> issues, and at every \<open>TriggerInterrupt\<close> each earlier trigger
  has an acknowledgment of its own behind it. The semaphore never exceeds 1, and while
  an interrupt is raised or in service the thread can neither return from \<^verbatim>\<open>poll\<close>
  nor from the semaphore wait.
\<close>

theorem one_interrupt_at_a_time:
  assumes "started m0" and "run L pk es m0 = Some (m, tr)"
  shows "raise_after_ack False tr
       \<and> triggers_acked 0 0 tr
       \<and> int_ack m \<le> 1
       \<and> (InterruptFlags_ETHER m \<or> in_interrupt m \<longrightarrow>
            step L pk (PollReturns res) m = None \<and> step L pk SemaphoreAcquired m = None)"
proof -
  have i0: "bridge_inv m0" and f0: "\<not> (InterruptFlags_ETHER m0 \<or> in_interrupt m0)"
    and c0: "counts_agree 0 0 m0"
    using assms(1) by (simp_all add: started_def bridge_inv_def counts_agree_def)
  from run_inv [OF i0 assms(2)] f0 have inv: "bridge_inv m" and tr: "raise_after_ack False tr"
    by simp_all
  have trig: "triggers_acked 0 0 tr"
    by (rule run_counts [OF c0 assms(2)])
  from inv have sem: "int_ack m \<le> 1"
    by (simp add: bridge_inv_def split: if_splits)
  from inv have blocked: "InterruptFlags_ETHER m \<or> in_interrupt m \<longrightarrow>
      step L pk (PollReturns res) m = None \<and> step L pk SemaphoreAcquired m = None"
    by (auto simp: bridge_inv_def dispatch_semaphore_wait_def split: if_splits)
  from tr trig sem blocked show ?thesis
    by simp
qed

theorem one_interrupt_at_a_time_witness:
  "started example_machine
   \<and> handlers_run (guest_actions (trace_of
         (run example_layout example_packet_addr two_frames_schedule example_machine)))
       = [0x1000, 0xB000]
   \<and> raise_after_ack False (trace_of
         (run example_layout example_packet_addr two_frames_schedule example_machine))
   \<and> triggers_acked 0 0 (trace_of
         (run example_layout example_packet_addr early_service_schedule example_machine))
   \<and> flag_after (run example_layout example_packet_addr raise_schedule example_machine)
   \<and> \<not> can_step example_layout example_packet_addr (PollReturns 1)
         (run example_layout example_packet_addr raise_schedule example_machine)
   \<and> \<not> can_step example_layout example_packet_addr SemaphoreAcquired
         (run example_layout example_packet_addr raise_schedule example_machine)"
proof -
  have s: "started example_machine"
    by (simp add: started_def example_machine_simps)
  have h: "handlers_run (guest_actions (trace_of
         (run example_layout example_packet_addr two_frames_schedule example_machine)))
       = [0x1000, 0xB000]"
    by code_simp
  have "case run example_layout example_packet_addr two_frames_schedule example_machine of
          None \<Rightarrow> False | Some x \<Rightarrow> True"
    by code_simp
  then obtain m tr
    where r: "run example_layout example_packet_addr two_frames_schedule example_machine
                = Some (m, tr)"
    by (auto split: option.splits)
  from one_interrupt_at_a_time [OF s r] have a: "raise_after_ack False tr"
    by simp
  have "case run example_layout example_packet_addr early_service_schedule example_machine of
          None \<Rightarrow> False | Some x \<Rightarrow> True"
    by code_simp
  then obtain m2 tr2
    where r2: "run example_layout example_packet_addr early_service_schedule example_machine
                 = Some (m2, tr2)"
    by (auto split: option.splits)
  from one_interrupt_at_a_time [OF s r2] have a2: "triggers_acked 0 0 tr2"
    by simp
  have f: "flag_after (run example_layout example_packet_addr raise_schedule example_machine)"
    by code_simp
  then obtain m' tr'
    where r': "run example_layout example_packet_addr raise_schedule example_machine
                 = Some (m', tr')"
      and f': "InterruptFlags_ETHER m'"
    by (cases "run example_layout example_packet_addr raise_schedule example_machine") auto
  from one_interrupt_at_a_time [OF s r', of 1] f'
  have "step example_layout example_packet_addr (PollReturns 1) m' = None"
    and "step example_layout example_packet_addr SemaphoreAcquired m' = None"
    by simp_all
  with s h r a r2 a2 r' f' show ?thesis
    by simp
qed


section \<open>Transmission\<close>

text \<open>
  C6, as stated, fails in slirp mode. Both writes to the slirp input pipe fail, and
  \<^verbatim>\<open>ether_do_write\<close> still returns \<open>noErr\<close>.
\<close>

theorem transmit_error_counterexample:
  "net_if_type slirp_globals = NET_IF_SLIRP
   \<and> failing_write (snd (slirp_input_fds slirp_globals)) (int_bytes 60) < 0
   \<and> failing_write (snd (slirp_input_fds slirp_globals)) (frame_of_type 0x08 0x00 46) < 0
   \<and> fst (ether_do_write failing_write slirp_globals (frame_of_type 0x08 0x00 46)) = noErr
   \<and> noErr \<noteq> excessCollsns"
  by (simp add: ether_do_write_def slirp_globals_def initial_globals_def failing_write_def
      noErr_def excessCollsns_def)

text \<open>
  C6, amended. On a device other than slirp, \<^verbatim>\<open>ether_do_write\<close> issues one write of
  the packet to \<open>fd\<close> and returns \<open>excessCollsns\<close> exactly when that write returns a
  negative number, \<open>noErr\<close> otherwise. In slirp mode it writes the length and the
  packet to the input pipe and returns \<open>noErr\<close> whatever the writes return. In every
  case the failure is a result code handed to the caller.
\<close>

theorem transmit_result:
  "(net_if_type s \<noteq> NET_IF_SLIRP \<longrightarrow>
      ether_do_write write s packet
        = ((if write (fd s) packet < 0 then excessCollsns else noErr), [(fd s, packet)]))
   \<and> (net_if_type s = NET_IF_SLIRP \<longrightarrow>
      ether_do_write write s packet
        = (noErr, [(snd (slirp_input_fds s), int_bytes (length packet)),
                   (snd (slirp_input_fds s), packet)]))
   \<and> excessCollsns \<noteq> noErr"
  by (simp add: ether_do_write_def Let_def result_codes_distinct)

theorem transmit_result_witness:
  "fst (ether_do_write failing_write sheepnet_globals (frame_of_type 0x08 0x00 46)) = excessCollsns
   \<and> fst (ether_do_write full_write sheepnet_globals (frame_of_type 0x08 0x00 46)) = noErr
   \<and> fst (ether_do_write failing_write slirp_globals (frame_of_type 0x08 0x00 46)) = noErr"
proof -
  have n: "net_if_type sheepnet_globals \<noteq> NET_IF_SLIRP" "net_if_type slirp_globals = NET_IF_SLIRP"
    by (simp_all add: sheepnet_globals_def slirp_globals_def initial_globals_def
        NET_IF_SLIRP_def NET_IF_SHEEPNET_def)
  show ?thesis
    using transmit_result [of sheepnet_globals failing_write "frame_of_type 0x08 0x00 46"]
          transmit_result [of sheepnet_globals full_write "frame_of_type 0x08 0x00 46"]
          transmit_result [of slirp_globals failing_write "frame_of_type 0x08 0x00 46"]
    by (simp add: n failing_write_def full_write_def)
qed


section \<open>Redirection rules\<close>

lemma parse_port_values:
  "parse_port ''8080'' = Some 8080" "parse_port ''80'' = Some 80" "parse_port ''1'' = Some 1"
  "parse_port ''99999'' = None" "parse_port ''65535'' = Some 65535"
  by code_simp+

lemma sprintf_str_short:
  "length text + length redir_str < 254 \<Longrightarrow>
     sprintf_str text redir_str = Inr (text @ [CHR 0x27] @ redir_str @ [CHR 0x27])"
  by (simp add: sprintf_str_def)

lemma slirp_add_redir_malformed:
  assumes "parse_redir E bad = None" and "length bad \<le> 224"
  shows "slirp_add_redir E bad n
           = Inr (- 1, n, [''invalid host forwarding rule '' @ [CHR 0x27] @ bad @ [CHR 0x27]])"
  using assms by (simp add: slirp_add_redir_def sprintf_str_short)

lemma slirp_add_redirs_append:
  "slirp_add_redirs E (xs @ ys) n
     = (case slirp_add_redirs E xs n of
          Inl f \<Rightarrow> Inl f
        | Inr (n1, w1) \<Rightarrow>
            (case slirp_add_redirs E ys n1 of
               Inl f \<Rightarrow> Inl f
             | Inr (n2, w2) \<Rightarrow> Inr (n2, w1 @ w2)))"
  by (induction xs arbitrary: n) (auto split: sum.splits prod.splits)

text \<open>
  A malformed rule whose warning fits the buffer only adds its warning: the rules
  before and after it are processed as if it were not in the list.
\<close>

lemma short_malformed_rule_skipped:
  assumes "parse_redir E bad = None" and "length bad \<le> 224"
  shows "slirp_add_redirs E (pre @ bad # post) n
           = (case slirp_add_redirs E pre n of
                Inl f \<Rightarrow> Inl f
              | Inr (n1, w1) \<Rightarrow>
                  (case slirp_add_redirs E post n1 of
                     Inl f \<Rightarrow> Inl f
                   | Inr (n2, w2) \<Rightarrow>
                       Inr (n2, w1 @ (''invalid host forwarding rule '' @ [CHR 0x27] @ bad
                                        @ [CHR 0x27]) # w2)))"
  using assms
  by (simp add: slirp_add_redirs_append slirp_add_redir_malformed split: sum.splits prod.splits)

text \<open>
  A list with a malformed rule, a rule that slirp refuses (its host port is taken) and
  two rules that are installed.
\<close>

lemma slirp_add_redirs_example:
  "slirp_add_redirs example_env
       [''tcp:8080::80'', ''bogus'', ''udp:53:2.3.4.5:53'', ''tcp:8080::81''] []
     = Inr ([\<lparr> is_udp = False, host_port = 8080, guest_addr = 0x0F02000A, guest_port = 80 \<rparr>,
             \<lparr> is_udp = True, host_port = 53, guest_addr = 0x05040302, guest_port = 53 \<rparr>],
            [''invalid host forwarding rule '' @ [CHR 0x27] @ ''bogus'' @ [CHR 0x27],
             ''could not set up host forwarding rule '' @ [CHR 0x27] @ ''tcp:8080::81''
               @ [CHR 0x27]])"
  by code_simp

text \<open>
  C7. With any \<^verbatim>\<open>inet_aton\<close> that accepts the client address \<^verbatim>\<open>CTL_LOCAL\<close>, the
  rule \<open>tcp:8080::80\<close> parses to protocol tcp, host port 8080, that client address and
  guest port 80, and so does the rule with an empty protocol field; these four values
  are what \<^verbatim>\<open>slirp_redir\<close> is called with. The rule
  \<open>udp:1:2.3.4.5:99999\<close> is rejected with the invalid-rule warning, while the same
  rule with guest port 65535 parses: the rejection is the port's. The rule \<open>bogus\<close> is
  rejected with the same warning, and so is every rule whose protocol field is
  \<open>bogus\<close>.
\<close>

theorem redir_rule_parsing:
  "(inet_aton E (CTL_LOCAL E) = Some a \<longrightarrow>
      parse_redir E ''tcp:8080::80''
        = Some \<lparr> is_udp = False, host_port = 8080, guest_addr = a, guest_port = 80 \<rparr>
    \<and> parse_redir E '':8080::80''
        = Some \<lparr> is_udp = False, host_port = 8080, guest_addr = a, guest_port = 80 \<rparr>
    \<and> (0 \<le> fst (slirp_redir E False 8080 a 80 n) \<longrightarrow>
          slirp_add_redir E ''tcp:8080::80'' n
            = Inr (0, snd (slirp_redir E False 8080 a 80 n), [])))
   \<and> slirp_add_redir E ''udp:1:2.3.4.5:99999'' n
        = Inr (- 1, n, [''invalid host forwarding rule '' @ [CHR 0x27]
                          @ ''udp:1:2.3.4.5:99999'' @ [CHR 0x27]])
   \<and> (inet_aton E ''2.3.4.5'' = Some b \<longrightarrow>
      parse_redir E ''udp:1:2.3.4.5:65535''
        = Some \<lparr> is_udp = True, host_port = 1, guest_addr = b, guest_port = 65535 \<rparr>)
   \<and> slirp_add_redir E ''bogus'' n
        = Inr (- 1, n, [''invalid host forwarding rule '' @ [CHR 0x27] @ ''bogus'' @ [CHR 0x27]])
   \<and> parse_redir E (''bogus:'' @ rest) = None"
proof -
  have u: "parse_redir E ''udp:1:2.3.4.5:99999'' = None"
    by (simp add: parse_redir_def get_str_sep_def parse_proto_def parse_port_values
        split: option.splits)
  have b: "parse_redir E ''bogus'' = None"
    by (simp add: parse_redir_def get_str_sep_def)
  have t: "inet_aton E (CTL_LOCAL E) = Some a \<longrightarrow>
      parse_redir E ''tcp:8080::80''
        = Some \<lparr> is_udp = False, host_port = 8080, guest_addr = a, guest_port = 80 \<rparr>
    \<and> parse_redir E '':8080::80''
        = Some \<lparr> is_udp = False, host_port = 8080, guest_addr = a, guest_port = 80 \<rparr>"
    by (simp add: parse_redir_def get_str_sep_def parse_proto_def parse_port_values)
  have u2: "inet_aton E ''2.3.4.5'' = Some b \<longrightarrow>
      parse_redir E ''udp:1:2.3.4.5:65535''
        = Some \<lparr> is_udp = True, host_port = 1, guest_addr = b, guest_port = 65535 \<rparr>"
    by (simp add: parse_redir_def get_str_sep_def parse_proto_def parse_port_values)
  have r: "parse_redir E (''bogus:'' @ rest) = None"
    by (simp add: parse_redir_def get_str_sep_def parse_proto_def)
  have i: "inet_aton E (CTL_LOCAL E) = Some a \<longrightarrow>
      0 \<le> fst (slirp_redir E False 8080 a 80 n) \<longrightarrow>
      slirp_add_redir E ''tcp:8080::80'' n
        = Inr (0, snd (slirp_redir E False 8080 a 80 n), [])"
    using t by (simp add: slirp_add_redir_def split: prod.splits)
  have bad: "slirp_add_redir E ''udp:1:2.3.4.5:99999'' n
        = Inr (- 1, n, [''invalid host forwarding rule '' @ [CHR 0x27]
                          @ ''udp:1:2.3.4.5:99999'' @ [CHR 0x27]])"
       "slirp_add_redir E ''bogus'' n
        = Inr (- 1, n, [''invalid host forwarding rule '' @ [CHR 0x27] @ ''bogus'' @ [CHR 0x27]])"
    by (simp_all add: slirp_add_redir_def u b sprintf_str_short)
  show ?thesis
    using t i u2 r bad by blast
qed

theorem redir_rule_parsing_witness:
  "parse_redir example_env ''tcp:8080::80''
     = Some \<lparr> is_udp = False, host_port = 8080, guest_addr = 0x0F02000A, guest_port = 80 \<rparr>
   \<and> slirp_add_redir example_env ''tcp:8080::80'' []
     = Inr (0, [\<lparr> is_udp = False, host_port = 8080, guest_addr = 0x0F02000A, guest_port = 80 \<rparr>],
            [])
   \<and> parse_redir example_env ''udp:1:2.3.4.5:65535''
     = Some \<lparr> is_udp = True, host_port = 1, guest_addr = 0x05040302, guest_port = 65535 \<rparr>
   \<and> slirp_add_redir example_env ''bogus'' []
     = Inr (- 1, [], [''invalid host forwarding rule '' @ [CHR 0x27] @ ''bogus'' @ [CHR 0x27]])"
proof -
  have a: "inet_aton example_env (CTL_LOCAL example_env) = Some 0x0F02000A"
          "inet_aton example_env ''2.3.4.5'' = Some 0x05040302"
    by (simp_all add: example_env_def example_inet_aton_def)
  have ok: "slirp_redir example_env False 8080 0x0F02000A 80 []
              = (0, [\<lparr> is_udp = False, host_port = 8080, guest_addr = 0x0F02000A,
                        guest_port = 80 \<rparr>])"
    by (simp add: example_env_def example_slirp_redir_def)
  show ?thesis
    using redir_rule_parsing [where E = example_env and a = "0x0F02000A" and n = "[]"
        and b = "0x05040302" and rest = "[]"]
    by (simp add: a ok)
qed

text \<open>
  C8. The code misses the claim on a long malformed rule. The rule of 240 characters
  has no separator and is malformed; its warning does not fit \<^verbatim>\<open>char str[256]\<close> and
  the \<^verbatim>\<open>sprintf\<close> overruns the buffer. From there the C behaviour is undefined:
  nothing ensures the warning, or that the well-formed rule after it is installed as
  it is when it stands alone. (For a malformed rule of at most 224 characters,
  \<open>short_malformed_rule_skipped\<close> shows what the claim says.)
\<close>

theorem long_malformed_rule_overruns:
  "parse_redir example_env long_bad_rule = None
   \<and> slirp_add_redirs example_env [long_bad_rule, ''tcp:8080::80''] [] = Inl str_overrun
   \<and> slirp_add_redirs example_env [''tcp:8080::80''] []
       = Inr ([\<lparr> is_udp = False, host_port = 8080, guest_addr = 0x0F02000A, guest_port = 80 \<rparr>], [])"
  by code_simp

end
